theory Spec2Isabelle
  imports Complex_Main "HOL-Library.Sublist"
begin

section \<open>Python values used by \<open>processor.py\<close>\<close>

text \<open>
  The file \<open>processor.py\<close> defines one class, \<open>MalignancyProcessor\<close>. Its methods
  are embedded below as HOL functions over a record of the object's attributes.
  Exceptions are values of the type \<open>error\<close>; a method that may raise returns
  \<open>error + 'a\<close> with \<open>Inl\<close> for the exception. The calls that leave the class
  (logging, the resampler of the \<open>dataloader\<close> module, checkpoint loading, the
  network itself) are recorded as a list of events, in the order in which the
  code performs them.
\<close>

datatype error =
    ValueError string
  | KeyError string
  | AttributeError string
  | ZeroDivisionError
  | RuntimeError string
  | ExtractionError string
  | ModelLoadError string

text \<open>
  Arrays (\<open>numpy.ndarray\<close>, \<open>torch.Tensor\<close>) are nested lists. Sample values
  are real numbers: the rounding of \<open>float32\<close> arithmetic is not represented, so
  nothing below speaks about it.
\<close>

datatype 'a ndarray = Scalar 'a | Array "'a ndarray list"

type_synonym tensor = "real ndarray"

type_synonym state_dict = "(string \<times> tensor) list"

subsection \<open>Strings\<close>

text \<open>
  \<open>str.lower\<close> on the letters \<open>A\<close> to \<open>Z\<close>; every other byte is kept. The
  constructor only asks whether the lowered name contains \<open>hiera\<close> or \<open>vit\<close>.
  A name is a list of bytes (UTF-8): the bytes of a character outside ASCII are
  never letters, and lowering such a character in Python yields no \<open>e\<close>,
  \<open>r\<close>, \<open>a\<close>, \<open>h\<close>, \<open>v\<close> or \<open>t\<close>, and an \<open>i\<close> only in front of a combining
  mark, so the two tests have the same answers as on the Python string.
\<close>

definition char_lower :: "char \<Rightarrow> char" where
  "char_lower c =
     (case map_of (zip ''ABCDEFGHIJKLMNOPQRSTUVWXYZ'' ''abcdefghijklmnopqrstuvwxyz'') c of
        None \<Rightarrow> c
      | Some l \<Rightarrow> l)"

definition lower :: "string \<Rightarrow> string" where
  "lower s = map char_lower s"

text \<open>Python's \<open>sub in s\<close> on strings: \<open>sub\<close> occurs in \<open>s\<close> as a contiguous block.\<close>

fun contains :: "string \<Rightarrow> string \<Rightarrow> bool" where
  "contains [] sub = (sub = [])"
| "contains (c # cs) sub = (prefix sub (c # cs) \<or> contains cs sub)"

text \<open>\<open>os.path.join\<close> of \<open>posixpath\<close>: an absolute component restarts the path.\<close>

fun path_join :: "string \<Rightarrow> string list \<Rightarrow> string" where
  "path_join path [] = path"
| "path_join path (b # bs) =
     (if prefix ''/'' b then path_join b bs
      else if path = [] \<or> suffix ''/'' path then path_join (path @ b) bs
      else path_join (path @ ''/'' @ b) bs)"

text \<open>Python 3 \<open>a / b\<close> on integers.\<close>

definition py_truediv :: "nat \<Rightarrow> nat \<Rightarrow> error + real" where
  "py_truediv a b = (if b = 0 then Inl ZeroDivisionError else Inr (real a / real b))"

section \<open>Array operations of the libraries\<close>

text \<open>
  The shape of an array; \<open>None\<close> for a nested list that is not rectangular (no
  numeric array has that form).
\<close>

fun shape :: "'a ndarray \<Rightarrow> nat list option" where
  "shape (Scalar x) = Some []"
| "shape (Array []) = Some [0]"
| "shape (Array (t # ts)) =
     (case shape t of
        None \<Rightarrow> None
      | Some s \<Rightarrow> if list_all (\<lambda>u. shape u = Some s) ts then Some (Suc (length ts) # s) else None)"

definition items :: "'a ndarray \<Rightarrow> 'a ndarray list" where
  "items t = (case t of Scalar x \<Rightarrow> [] | Array ts \<Rightarrow> ts)"


text \<open>Apply a function to every sub-array found below \<open>n\<close> leading axes.\<close>

fun at_depth :: "nat \<Rightarrow> ('a ndarray \<Rightarrow> 'a ndarray) \<Rightarrow> 'a ndarray \<Rightarrow> 'a ndarray" where
  "at_depth 0 f t = f t"
| "at_depth (Suc n) f (Scalar x) = Scalar x"
| "at_depth (Suc n) f (Array ts) = Array (map (at_depth n f) ts)"

text \<open>\<open>patch.astype(np.float32)\<close>: a change of representation only, on real samples.\<close>

definition astype_float32 :: "tensor \<Rightarrow> tensor" where
  "astype_float32 t = t"

text \<open>
  \<open>torchvision.transforms.v2.Normalize(mean, std)\<close> on a plain tensor of shape
  \<open>(..., C, H, W)\<close>: fewer than three axes is a \<open>ValueError\<close>; \<open>mean\<close> and \<open>std\<close>
  are viewed as \<open>(n, 1, 1)\<close> and broadcast against the tensor, so the channel
  axis has \<open>n\<close> entries or one entry (which is then repeated); the value at
  channel \<open>c\<close> becomes \<open>(x - mean[c]) / std[c]\<close>.
\<close>

definition normalize_value :: "real \<Rightarrow> real \<Rightarrow> real \<Rightarrow> real" where
  "normalize_value m s x = (x - m) / s"

definition normalize_chw :: "real list \<Rightarrow> real list \<Rightarrow> tensor \<Rightarrow> tensor" where
  "normalize_chw mean std t =
     Array (map (\<lambda>c. map_ndarray (normalize_value (mean ! c) (std ! c))
                        (items t ! (if length (items t) = 1 then 0 else c)))
                [0..<length mean])"

definition normalize_image :: "real list \<Rightarrow> real list \<Rightarrow> tensor \<Rightarrow> error + tensor" where
  "normalize_image mean std t =
     (case shape t of
        None \<Rightarrow> Inl (ValueError ''not an array'')
      | Some sh \<Rightarrow>
          if length sh < 3 then
            Inl (ValueError ''Expected tensor to be a tensor image of size (..., C, H, W).'')
          else if sh ! (length sh - 3) = length mean \<or> sh ! (length sh - 3) = 1 then
            Inr (at_depth (length sh - 3) (normalize_chw mean std) t)
          else Inl (RuntimeError ''The size of tensor a must match the size of tensor b''))"

text \<open>
  \<open>tensor.permute(1, 0, 2, 3)\<close>: defined on four axes, it exchanges the first two,
  \<open>out[j][i] = t[i][j]\<close>.
\<close>

definition permute_1_0_2_3 :: "'a ndarray \<Rightarrow> error + 'a ndarray" where
  "permute_1_0_2_3 t =
     (case shape t of
        Some [d0, d1, d2, d3] \<Rightarrow>
          Inr (Array (map (\<lambda>j. Array (map (\<lambda>row. items row ! j) (items t))) [0..<d1]))
      | _ \<Rightarrow> Inl (RuntimeError ''permute: number of dims does not match the ordering''))"

text \<open>\<open>np.array(nodules)\<close>: the list of patches becomes the leading axis.\<close>

definition np_array :: "'a ndarray list \<Rightarrow> 'a ndarray" where
  "np_array ts = Array ts"

text \<open>\<open>torch.sigmoid\<close>, elementwise.\<close>

definition sigmoid :: "real \<Rightarrow> real" where
  "sigmoid x = 1 / (1 + exp (- x))"

definition torch_sigmoid :: "tensor \<Rightarrow> tensor" where
  "torch_sigmoid t = map_ndarray sigmoid t"

text \<open>
  Modelled from the spec: \<open>dataloader.clip_and_scale\<close> is called by
  \<open>extract_patch\<close> with the patch as its only argument, and the \<open>dataloader\<close>
  module is not among the sources. The specification says of it: clamp intensities
  to a fixed source value range and linearly rescale to unit range [0,1], the clamp
  bounds being a fixed global constant, not per-request. The two bounds are
  parameters here.
\<close>

definition clip_and_scale :: "real \<Rightarrow> real \<Rightarrow> tensor \<Rightarrow> tensor" where
  "clip_and_scale lo hi t = map_ndarray (\<lambda>x. (min hi (max lo x) - lo) / (hi - lo)) t"

section \<open>The processor object\<close>

datatype variant = Hiera3D | Hiera2D | ViT2D

text \<open>
  A network object as \<open>processor.py\<close> sees it: which class it is, the arguments
  it was built with, the state dict last loaded into it (\<open>None\<close> until
  \<open>load_state_dict\<close> is called) and the \<open>training\<close> flag of \<open>torch.nn.Module\<close>,
  which is \<open>True\<close> after construction and \<open>False\<close> after \<open>eval()\<close>.
\<close>

record model_obj =
  arch :: variant
  image_size :: nat
  image_depth :: "nat option"
  kind :: string
  weights :: "state_dict option"
  training :: bool

text \<open>
  The attributes of a \<open>MalignancyProcessor\<close>. An attribute that the constructor
  does not assign on every path (\<open>model_3d\<close>, \<open>model_2d\<close>) or that only
  \<open>define_inputs\<close> assigns is an option: reading it while it is \<open>None\<close> is
  Python's \<open>AttributeError\<close>. The attribute \<open>image\<close> is the field \<open>image_ct\<close>,
  since HOL has a constant of that name; \<open>model_root\<close>, which the constructor
  assigns last, is empty until then.
\<close>

record processor =
  size_px :: nat
  size_mm :: nat
  depth_px :: nat
  model_name :: string
  mode :: string
  suppress_logs :: bool
  model_3d :: "model_obj option"
  model_2d :: "model_obj option"
  model_root :: string
  image_ct :: "tensor option"
  header :: "(string \<rightharpoonup> tensor) option"
  coords :: "real list list option"

text \<open>
  The keyword arguments of one call of \<open>dataloader.extract_patch\<close>; the argument
  \<open>mode\<close> is the field \<open>call_mode\<close>.
\<close>

record extract_call =
  CTData :: tensor
  coord :: "real list"
  srcVoxelOrigin :: tensor
  srcWorldMatrix :: tensor
  srcVoxelSpacing :: tensor
  output_shape :: "nat list"
  voxel_spacing :: "real \<times> real \<times> real"
  coord_space_world :: bool
  call_mode :: string

datatype event =
    LogInfo string
  | NewModel variant nat "nat option" string
  | ModelCuda variant
  | DlExtractPatch extract_call
  | TensorCuda
  | TorchLoad string
  | LoadStateDict variant
  | ModelEval variant
  | Forward variant bool

subsection \<open>\<open>__init__\<close>\<close>

text \<open>
  The network classes are collaborators: building one and moving it to the device
  is recorded as two events and yields a fresh object in training mode.
\<close>

definition new_model :: "variant \<Rightarrow> nat \<Rightarrow> nat option \<Rightarrow> string \<Rightarrow> model_obj" where
  "new_model v sz dp k =
     \<lparr>arch = v, image_size = sz, image_depth = dp, kind = k, weights = None, training = True\<rparr>"

definition init_fields :: "string \<Rightarrow> bool \<Rightarrow> string \<Rightarrow> processor" where
  "init_fields mode_arg suppress name =
     \<lparr>size_px = 64, size_mm = 50, depth_px = 16, model_name = name, mode = mode_arg,
      suppress_logs = suppress, model_3d = None, model_2d = None, model_root = [],
      image_ct = None, header = None, coords = None\<rparr>"

definition init :: "string \<Rightarrow> bool \<Rightarrow> string \<Rightarrow> event list \<times> (error + processor)" where
  "init mode_arg suppress name =
     (let self = init_fields mode_arg suppress name;
          log = (if \<not> suppress_logs self
                 then [LogInfo ''Initializing the deep learning system''] else [])
      in
        if mode self = ''3D'' \<and> contains (lower (model_name self)) ''hiera'' then
          (log @ [NewModel Hiera3D (size_px self) (Some (depth_px self)) ''finetuned'',
                  ModelCuda Hiera3D],
           Inr (self\<lparr>model_3d :=
                       Some (new_model Hiera3D (size_px self) (Some (depth_px self)) ''finetuned''),
                     model_root := ''/opt/app/resources/''\<rparr>))
        else if mode self = ''2D'' \<and> contains (lower (model_name self)) ''hiera'' then
          (log @ [NewModel Hiera2D (size_px self) None ''finetuned'', ModelCuda Hiera2D],
           Inr (self\<lparr>model_2d := Some (new_model Hiera2D (size_px self) None ''finetuned''),
                     model_root := ''/opt/app/resources/''\<rparr>))
        else if mode self = ''2D'' \<and> contains (lower (model_name self)) ''vit'' then
          (log @ [NewModel ViT2D (size_px self) None ''finetuned'', ModelCuda ViT2D],
           Inr (self\<lparr>model_2d := Some (new_model ViT2D (size_px self) None ''finetuned''),
                     model_root := ''/opt/app/resources/''\<rparr>))
        else (log, Inl (ValueError ''Invalid mode and/or model_name.'')))"

text \<open>The variant a processor holds: the class of the one network object it owns.\<close>

definition selected :: "processor \<Rightarrow> variant list" where
  "selected p = map arch (case model_3d p of None \<Rightarrow> [] | Some m \<Rightarrow> [m])
              @ map arch (case model_2d p of None \<Rightarrow> [] | Some m \<Rightarrow> [m])"

subsection \<open>\<open>define_inputs\<close>\<close>

definition define_inputs ::
  "processor \<Rightarrow> tensor \<Rightarrow> (string \<rightharpoonup> tensor) \<Rightarrow> real list list \<Rightarrow> processor" where
  "define_inputs self img hdr cs = self\<lparr>image_ct := Some img, header := Some hdr, coords := Some cs\<rparr>"

section \<open>The collaborators\<close>

text \<open>
  What the class calls and does not define: the resampler
  \<open>dataloader.extract_patch\<close>, the clamp bounds of \<open>dataloader.clip_and_scale\<close>,
  the file system behind \<open>torch.load\<close>, the strict check of
  \<open>load_state_dict\<close> (whether a state dict fits the parameters of a network
  class), and the forward pass of a network object (given the object, whether
  gradients are enabled, and the batch). Each may fail.
\<close>

record env =
  dl_extract_patch :: "extract_call \<Rightarrow> error + tensor"
  clip_lo :: real
  clip_hi :: real
  torch_load :: "string \<Rightarrow> error + state_dict"
  accepts :: "variant \<Rightarrow> state_dict \<Rightarrow> bool"
  forward :: "model_obj \<Rightarrow> bool \<Rightarrow> tensor \<Rightarrow> error + tensor"

definition get_attr :: "string \<Rightarrow> 'a option \<Rightarrow> error + 'a" where
  "get_attr name v = (case v of None \<Rightarrow> Inl (AttributeError name) | Some x \<Rightarrow> Inr x)"

definition get_item :: "(string \<rightharpoonup> 'a) \<Rightarrow> string \<Rightarrow> error + 'a" where
  "get_item d k = (case d k of None \<Rightarrow> Inl (KeyError k) | Some x \<Rightarrow> Inr x)"

subsection \<open>\<open>extract_patch\<close>\<close>

text \<open>
  The keyword arguments are evaluated in the order in which they are written;
  the resampler is called only when all of them have a value.
\<close>

definition bind_err :: "error + 'a \<Rightarrow> ('a \<Rightarrow> error + 'b) \<Rightarrow> error + 'b" where
  "bind_err r f = (case r of Inl e \<Rightarrow> Inl e | Inr x \<Rightarrow> f x)"

definition extract_args ::
  "processor \<Rightarrow> real list \<Rightarrow> nat list \<Rightarrow> string \<Rightarrow> error + extract_call" where
  "extract_args self c shp mode_arg =
     bind_err (get_attr ''image'' (image_ct self)) (\<lambda>img.
     bind_err (get_attr ''header'' (header self)) (\<lambda>hdr.
     bind_err (get_item hdr ''origin'') (\<lambda>origin.
     bind_err (get_item hdr ''transform'') (\<lambda>transform.
     bind_err (get_item hdr ''spacing'') (\<lambda>spacing.
     bind_err (py_truediv (size_mm self) (size_px self)) (\<lambda>pitch.
       Inr \<lparr>CTData = img, coord = c, srcVoxelOrigin = origin, srcWorldMatrix = transform,
            srcVoxelSpacing = spacing, output_shape = shp,
            voxel_spacing = (pitch, pitch, pitch), coord_space_world = True,
            call_mode = mode_arg\<rparr>))))))"

definition normalize_transform :: "processor \<Rightarrow> tensor \<Rightarrow> error + tensor" where
  "normalize_transform self =
     (if mode self = ''2D''
      then normalize_image [0.485, 0.456, 0.406] [0.229, 0.224, 0.225]
      else normalize_image [0.45, 0.45, 0.45] [0.225, 0.225, 0.225])"

definition extract_patch ::
  "env \<Rightarrow> processor \<Rightarrow> real list \<Rightarrow> nat list \<Rightarrow> string \<Rightarrow> event list \<times> (error + tensor)" where
  "extract_patch env self c shp mode_arg =
     (case extract_args self c shp mode_arg of
        Inl e \<Rightarrow> ([], Inl e)
      | Inr call \<Rightarrow>
          ([DlExtractPatch call],
           case dl_extract_patch env call of
             Inl e \<Rightarrow> Inl e
           | Inr raw \<Rightarrow>
               (case normalize_transform self
                       (clip_and_scale (clip_lo env) (clip_hi env) (astype_float32 raw)) of
                  Inl e \<Rightarrow> Inl e
                | Inr patch \<Rightarrow> if mode self = ''3D'' then permute_1_0_2_3 patch else Inr patch)))"

subsection \<open>\<open>_process_model\<close> and \<open>predict\<close>\<close>

text \<open>The \<open>for\<close> loop over \<open>self.coords\<close>, appending to \<open>nodules\<close>.\<close>

fun extract_loop ::
  "env \<Rightarrow> processor \<Rightarrow> real list list \<Rightarrow> nat list \<Rightarrow> string \<Rightarrow> tensor list
     \<Rightarrow> event list \<times> (error + tensor list)" where
  "extract_loop env self [] shp mode_arg nodules = ([], Inr nodules)"
| "extract_loop env self (c # cs) shp mode_arg nodules =
     (case extract_patch env self c shp mode_arg of
        (ev, Inl e) \<Rightarrow> (ev, Inl e)
      | (ev, Inr patch) \<Rightarrow>
          (case extract_loop env self cs shp mode_arg (nodules @ [patch]) of
             (evs, r) \<Rightarrow> (ev @ evs, r)))"

definition checkpoint_path :: "processor \<Rightarrow> string" where
  "checkpoint_path self = path_join (model_root self) [model_name self, ''best_metric_model.pth'']"

text \<open>
  The local variable \<open>model\<close> is the object held by the attribute, so what
  \<open>load_state_dict\<close> and \<open>eval\<close> change is seen through the attribute afterwards.
  \<open>run_model\<close> is the second half of \<open>_process_model\<close>, from the transfer of
  the batch to the device to the forward pass under \<open>torch.no_grad()\<close>.
\<close>

definition put_model :: "processor \<Rightarrow> string \<Rightarrow> model_obj \<Rightarrow> processor" where
  "put_model self mode_arg m =
     (if mode_arg = ''3D'' then self\<lparr>model_3d := Some m\<rparr> else self\<lparr>model_2d := Some m\<rparr>)"

definition run_model ::
  "env \<Rightarrow> processor \<Rightarrow> string \<Rightarrow> model_obj \<Rightarrow> tensor
     \<Rightarrow> event list \<times> processor \<times> (error + tensor)" where
  "run_model env self mode_arg model batch =
     (let path = checkpoint_path self in
      case torch_load env path of
        Inl e \<Rightarrow> ([TensorCuda, TorchLoad path], self, Inl e)
      | Inr ckpt \<Rightarrow>
          if \<not> accepts env (arch model) ckpt then
            ([TensorCuda, TorchLoad path, LoadStateDict (arch model)], self,
             Inl (RuntimeError ''Error(s) in loading state_dict''))
          else
            (let loaded = model\<lparr>weights := Some ckpt\<rparr>;
                 evaluating = loaded\<lparr>training := False\<rparr>
             in ([TensorCuda, TorchLoad path, LoadStateDict (arch model),
                  ModelEval (arch model), Forward (arch model) False],
                 put_model self mode_arg evaluating,
                 forward env evaluating False batch)))"

definition processing_log :: "processor \<Rightarrow> string \<Rightarrow> event list" where
  "processing_log self mode_arg =
     (if \<not> suppress_logs self then [LogInfo (''Processing in '' @ mode_arg)] else [])"

definition shape_and_model :: "processor \<Rightarrow> string \<Rightarrow> error + nat list \<times> model_obj" where
  "shape_and_model self mode_arg =
     (if mode_arg = ''3D'' then
        bind_err (get_attr ''model_3d'' (model_3d self))
          (\<lambda>model. Inr ([depth_px self, size_px self, size_px self], model))
      else
        bind_err (get_attr ''model_2d'' (model_2d self))
          (\<lambda>model. Inr ([1, size_px self, size_px self], model)))"

definition process_model ::
  "env \<Rightarrow> processor \<Rightarrow> string \<Rightarrow> event list \<times> processor \<times> (error + tensor)" where
  "process_model env self mode_arg =
     (case shape_and_model self mode_arg of
        Inl e \<Rightarrow> (processing_log self mode_arg, self, Inl e)
      | Inr (shp, model) \<Rightarrow>
          (case get_attr ''coords'' (coords self) of
             Inl e \<Rightarrow> (processing_log self mode_arg, self, Inl e)
           | Inr cs \<Rightarrow>
               (case extract_loop env self cs shp mode_arg [] of
                  (ev, Inl e) \<Rightarrow> (processing_log self mode_arg @ ev, self, Inl e)
                | (ev, Inr nodules) \<Rightarrow>
                    (case run_model env self mode_arg model (np_array nodules) of
                       (ev', self', r) \<Rightarrow> (processing_log self mode_arg @ ev @ ev', self', r)))))"

definition predict ::
  "env \<Rightarrow> processor \<Rightarrow> event list \<times> processor \<times> (error + tensor \<times> tensor)" where
  "predict env self =
     (case process_model env self (mode self) of
        (ev, self', Inl e) \<Rightarrow> (ev, self', Inl e)
      | (ev, self', Inr logits) \<Rightarrow> (ev, self', Inr (torch_sigmoid logits, logits)))"

section \<open>Observing a run\<close>

text \<open>The resampler calls of a trace, in order, with their arguments.\<close>

definition extract_calls :: "event list \<Rightarrow> extract_call list" where
  "extract_calls evs = concat (map (\<lambda>e. case e of DlExtractPatch call \<Rightarrow> [call] | _ \<Rightarrow> []) evs)"

definition is_log :: "event \<Rightarrow> bool" where
  "is_log e = (case e of LogInfo msg \<Rightarrow> True | _ \<Rightarrow> False)"

text \<open>A trace without its diagnostic lines.\<close>

definition no_log :: "event list \<Rightarrow> event list" where
  "no_log evs = filter (\<lambda>e. \<not> is_log e) evs"

text \<open>The device, checkpoint and network events of a trace.\<close>

definition model_events :: "event list \<Rightarrow> event list" where
  "model_events evs =
     filter (\<lambda>e. case e of LogInfo msg \<Rightarrow> False | DlExtractPatch call \<Rightarrow> False | _ \<Rightarrow> True) evs"

text \<open>
  The processors a caller can hold: one that the constructor returned, after any
  number of \<open>define_inputs\<close> and \<open>predict\<close> calls.
\<close>

inductive reachable :: "env \<Rightarrow> processor \<Rightarrow> bool" for env :: env where
  constructed: "init mode_arg suppress name = (evs, Inr self) \<Longrightarrow> reachable env self"
| inputs: "reachable env self \<Longrightarrow> reachable env (define_inputs self img hdr cs)"
| predicted: "reachable env self \<Longrightarrow> predict env self = (evs, self', r) \<Longrightarrow> reachable env self'"

text \<open>
  What the constructor establishes and the two methods keep: the three size
  constants, the checkpoint root, one network object whose class fits the mode
  and the name, and the inputs being set together.
\<close>

definition configured :: "processor \<Rightarrow> bool" where
  "configured self \<longleftrightarrow>
     size_px self = 64 \<and> size_mm self = 50 \<and> depth_px self = 16
     \<and> model_root self = ''/opt/app/resources/''
     \<and> ((mode self = ''3D'' \<and> contains (lower (model_name self)) ''hiera''
           \<and> map_option arch (model_3d self) = Some Hiera3D \<and> model_2d self = None)
        \<or> (mode self = ''2D'' \<and> model_3d self = None
           \<and> map_option arch (model_2d self) =
                 Some (if contains (lower (model_name self)) ''hiera'' then Hiera2D else ViT2D)
           \<and> (contains (lower (model_name self)) ''hiera''
                \<or> contains (lower (model_name self)) ''vit'')))
     \<and> (header self = None \<longleftrightarrow> image_ct self = None)
     \<and> (coords self = None \<longleftrightarrow> image_ct self = None)"

section \<open>A small environment for concrete runs\<close>

text \<open>
  A toy resampler that returns two slices (3D) or one slice (2D) of three channels
  and a single pixel, the samples of the first slice being the first world
  coordinate of the candidate and those of the second slice 700 more; a
  checkpoint store that holds a file of the expected name in every directory;
  and a toy network whose logit for an item is the first sample of its patch.
\<close>

fun leftmost :: "real ndarray \<Rightarrow> real" where
  "leftmost (Scalar x) = x"
| "leftmost (Array []) = 0"
| "leftmost (Array (t # ts)) = leftmost t"

definition demo_slice :: "real \<Rightarrow> tensor" where
  "demo_slice x = Array [Array [Array [Scalar x]], Array [Array [Scalar x]], Array [Array [Scalar x]]]"

definition demo_resampler :: "extract_call \<Rightarrow> error + tensor" where
  "demo_resampler call =
     (let x = (case coord call of [] \<Rightarrow> 0 | x # xs \<Rightarrow> x)
      in if call_mode call = ''3D'' then Inr (Array [demo_slice x, demo_slice (x + 700)])
         else Inr (demo_slice x))"

definition demo_env :: env where
  "demo_env =
     \<lparr>dl_extract_patch = demo_resampler,
      clip_lo = - 1000,
      clip_hi = 400,
      torch_load = (\<lambda>path.
         if suffix ''/best_metric_model.pth'' path
         then Inr [(''head.bias'', Array [Scalar 0])]
         else Inl (ModelLoadError path)),
      accepts = (\<lambda>v ckpt. True),
      forward = (\<lambda>m grad batch. Inr (Array (map (\<lambda>t. Array [Scalar (leftmost t)]) (items batch))))\<rparr>"

definition demo_image :: tensor where
  "demo_image = Array [Array [Array [Scalar (- 700)]]]"

definition demo_header :: "string \<rightharpoonup> tensor" where
  "demo_header =
     [''origin'' \<mapsto> Array [Scalar 0, Scalar 0, Scalar 0],
      ''spacing'' \<mapsto> Array [Scalar 1, Scalar 1, Scalar 1],
      ''transform'' \<mapsto> Array [Array [Scalar 1, Scalar 0, Scalar 0],
                                 Array [Scalar 0, Scalar 1, Scalar 0],
                                 Array [Scalar 0, Scalar 0, Scalar 1]]]"

text \<open>
  The processor built by \<open>MalignancyProcessor(mode, True, name)\<close> and given its
  inputs; \<open>init_fields\<close> stands in where the constructor raises.
\<close>

definition demo_processor ::
  "string \<Rightarrow> string \<Rightarrow> (string \<rightharpoonup> tensor) \<Rightarrow> real list list \<Rightarrow> processor" where
  "demo_processor mode_arg name hdr cs =
     (case snd (init mode_arg True name) of
        Inl e \<Rightarrow> init_fields mode_arg True name
      | Inr self \<Rightarrow> define_inputs self demo_image hdr cs)"

definition demo_3d :: processor where
  "demo_3d = demo_processor ''3D'' ''finetune-hiera'' demo_header [[1, 2, 3], [- 1200, 5, 6]]"

definition demo_2d :: processor where
  "demo_2d = demo_processor ''2D'' ''finetune-vit'' demo_header [[- 300, 0, 0]]"

text \<open>The call the processor makes for a candidate of the sample runs.\<close>

definition demo_call :: "real list \<Rightarrow> nat list \<Rightarrow> string \<Rightarrow> extract_call" where
  "demo_call c shp mode_arg =
     \<lparr>CTData = demo_image, coord = c,
      srcVoxelOrigin = Array [Scalar 0, Scalar 0, Scalar 0],
      srcWorldMatrix = Array [Array [Scalar 1, Scalar 0, Scalar 0],
                              Array [Scalar 0, Scalar 1, Scalar 0],
                              Array [Scalar 0, Scalar 0, Scalar 1]],
      srcVoxelSpacing = Array [Scalar 1, Scalar 1, Scalar 1],
      output_shape = shp, voxel_spacing = (50 / 64, 50 / 64, 50 / 64),
      coord_space_world = True, call_mode = mode_arg\<rparr>"



definition demo_no_header :: "real list list \<Rightarrow> processor" where
  "demo_no_header cs = demo_processor ''3D'' ''finetune-hiera'' Map.empty cs"

section \<open>The constructor\<close>

lemma contains_iff_sublist: "contains s sub \<longleftrightarrow> sublist sub s"
  by (induction s) (auto simp: sublist_Cons_right)

lemma lower_demo_names:
  "lower ''Hiera-ViT'' = ''hiera-vit''"
  "lower ''finetune-hiera'' = ''finetune-hiera''"
  "lower ''finetune-vit'' = ''finetune-vit''"
  "lower ''resnet'' = ''resnet''"
  by (simp_all add: lower_def char_lower_def)

text \<open>
  Claim C10. Whenever the lowered model name contains both \<open>hiera\<close> and \<open>vit\<close>,
  construction in mode \<open>2D\<close> succeeds and the network object it builds is a
  \<open>Hiera2D\<close>, not a \<open>ViT2D\<close>: the \<open>hiera\<close> branch is tested first.
\<close>

theorem hiera_before_vit:
  assumes "contains (lower name) ''hiera''" and "contains (lower name) ''vit''"
  shows "\<exists>evs self. init ''2D'' suppress name = (evs, Inr self)
           \<and> selected self = [Hiera2D] \<and> selected self \<noteq> [ViT2D]"
  using assms by (simp add: init_def init_fields_def selected_def new_model_def)

theorem hiera_before_vit_witness:
  "contains (lower ''Hiera-ViT'') ''hiera'' \<and> contains (lower ''Hiera-ViT'') ''vit'' \<and>
   (\<exists>evs self. init ''2D'' False ''Hiera-ViT'' = (evs, Inr self)
      \<and> selected self = [Hiera2D] \<and> selected self \<noteq> [ViT2D])"
proof -
  have h: "contains (lower ''Hiera-ViT'') ''hiera''"
    by (simp add: lower_demo_names)
  have v: "contains (lower ''Hiera-ViT'') ''vit''"
    by (simp add: lower_demo_names)
  from hiera_before_vit [OF h v, of False] h v show ?thesis
    by blast
qed




section \<open>Traces of the loop and of the network call\<close>

lemma extract_calls_simps [simp]:
  "extract_calls [] = []"
  "extract_calls (DlExtractPatch call # evs) = call # extract_calls evs"
  "extract_calls (LogInfo msg # evs) = extract_calls evs"
  "extract_calls (TensorCuda # evs) = extract_calls evs"
  "extract_calls (TorchLoad path # evs) = extract_calls evs"
  "extract_calls (LoadStateDict v # evs) = extract_calls evs"
  "extract_calls (ModelEval v # evs) = extract_calls evs"
  "extract_calls (Forward v g # evs) = extract_calls evs"
  "extract_calls (evs @ evs') = extract_calls evs @ extract_calls evs'"
  by (simp_all add: extract_calls_def)

lemma model_events_simps [simp]:
  "model_events [] = []"
  "model_events (DlExtractPatch call # evs) = model_events evs"
  "model_events (LogInfo msg # evs) = model_events evs"
  "model_events (TensorCuda # evs) = TensorCuda # model_events evs"
  "model_events (TorchLoad path # evs) = TorchLoad path # model_events evs"
  "model_events (LoadStateDict v # evs) = LoadStateDict v # model_events evs"
  "model_events (ModelEval v # evs) = ModelEval v # model_events evs"
  "model_events (Forward v g # evs) = Forward v g # model_events evs"
  "model_events (evs @ evs') = model_events evs @ model_events evs'"
  by (simp_all add: model_events_def)

lemma no_log_simps [simp]:
  "no_log [] = []"
  "no_log (DlExtractPatch call # evs) = DlExtractPatch call # no_log evs"
  "no_log (LogInfo msg # evs) = no_log evs"
  "no_log (TensorCuda # evs) = TensorCuda # no_log evs"
  "no_log (TorchLoad path # evs) = TorchLoad path # no_log evs"
  "no_log (LoadStateDict v # evs) = LoadStateDict v # no_log evs"
  "no_log (ModelEval v # evs) = ModelEval v # no_log evs"
  "no_log (Forward v g # evs) = Forward v g # no_log evs"
  "no_log (NewModel v a b c # evs) = NewModel v a b c # no_log evs"
  "no_log (ModelCuda v # evs) = ModelCuda v # no_log evs"
  "no_log (evs @ evs') = no_log evs @ no_log evs'"
  by (simp_all add: no_log_def is_log_def)

lemma extract_args_Inr:
  assumes "extract_args self c shp mode_arg = Inr call"
  shows "output_shape call = shp \<and> call_mode call = mode_arg \<and> coord call = c
         \<and> coord_space_world call
         \<and> image_ct self = Some (CTData call)
         \<and> (\<exists>hdr. header self = Some hdr \<and> hdr ''origin'' = Some (srcVoxelOrigin call)
               \<and> hdr ''transform'' = Some (srcWorldMatrix call)
               \<and> hdr ''spacing'' = Some (srcVoxelSpacing call))
         \<and> size_px self \<noteq> 0
         \<and> voxel_spacing call = (real (size_mm self) / real (size_px self),
                                  real (size_mm self) / real (size_px self),
                                  real (size_mm self) / real (size_px self))"
  using assms
  by (auto simp: extract_args_def bind_err_def get_attr_def get_item_def py_truediv_def
           split: option.splits if_splits)

lemma extract_patch_events:
  "fst (extract_patch env self c shp mode_arg) =
     (case extract_args self c shp mode_arg of Inl e \<Rightarrow> [] | Inr call \<Rightarrow> [DlExtractPatch call])"
  by (simp add: extract_patch_def split: sum.splits)



lemma extract_loop_Cons_Inr:
  "extract_patch env self c shp mode_arg = (ev, Inr patch) \<Longrightarrow>
   extract_loop env self (c # cs) shp mode_arg acc =
     (ev @ fst (extract_loop env self cs shp mode_arg (acc @ [patch])),
      snd (extract_loop env self cs shp mode_arg (acc @ [patch])))"
  by (simp add: case_prod_beta)


lemma extract_loop_calls:
  assumes "extract_loop env self cs shp mode_arg acc = (evs, r)"
  shows "list_all (\<lambda>call. \<exists>c. extract_args self c shp mode_arg = Inr call) (extract_calls evs)
         \<and> model_events evs = [] \<and> no_log evs = evs"
  using assms
proof (induction cs arbitrary: acc evs r)
  case Nil
  then show ?case by simp
next
  case (Cons c cs)
  obtain ev res where first: "extract_patch env self c shp mode_arg = (ev, res)"
    by (cases "extract_patch env self c shp mode_arg")
  have ev: "ev = (case extract_args self c shp mode_arg of
                    Inl e \<Rightarrow> [] | Inr call \<Rightarrow> [DlExtractPatch call])"
    using extract_patch_events [of env self c shp mode_arg] first by simp
  have ev_ok: "list_all (\<lambda>call. \<exists>c. extract_args self c shp mode_arg = Inr call) (extract_calls ev)
               \<and> model_events ev = [] \<and> no_log ev = ev"
  proof (cases "extract_args self c shp mode_arg")
    case (Inl e)
    with ev show ?thesis by simp
  next
    case (Inr call)
    with ev show ?thesis by auto
  qed
  show ?case
  proof (cases res)
    case (Inl e)
    with first Cons.prems have "evs = ev" by simp
    with ev_ok show ?thesis by simp
  next
    case (Inr patch)
    obtain evs' r' where rest: "extract_loop env self cs shp mode_arg (acc @ [patch]) = (evs', r')"
      by (cases "extract_loop env self cs shp mode_arg (acc @ [patch])")
    from first Inr Cons.prems rest have evs: "evs = ev @ evs'"
      by simp
    from Cons.IH [OF rest] ev_ok evs show ?thesis
      by simp
  qed
qed

lemma extract_args_suppress [simp]:
  "extract_args (self\<lparr>suppress_logs := b\<rparr>) c shp mode_arg = extract_args self c shp mode_arg"
  by (simp add: extract_args_def)

lemma extract_args_put_model [simp]:
  "extract_args (put_model self m x) c shp mode_arg = extract_args self c shp mode_arg"
  by (simp add: extract_args_def put_model_def)

lemma normalize_transform_suppress [simp]:
  "normalize_transform (self\<lparr>suppress_logs := b\<rparr>) = normalize_transform self"
  by (simp add: normalize_transform_def)

lemma normalize_transform_put_model [simp]:
  "normalize_transform (put_model self m x) = normalize_transform self"
  by (simp add: normalize_transform_def put_model_def)

lemma mode_put_model [simp]: "mode (put_model self m x) = mode self"
  by (simp add: put_model_def)

lemma extract_patch_suppress [simp]:
  "extract_patch env (self\<lparr>suppress_logs := b\<rparr>) c shp mode_arg = extract_patch env self c shp mode_arg"
  by (simp add: extract_patch_def split: sum.splits)

lemma extract_patch_put_model [simp]:
  "extract_patch env (put_model self m x) c shp mode_arg = extract_patch env self c shp mode_arg"
  by (simp add: extract_patch_def split: sum.splits)

lemma extract_loop_suppress [simp]:
  "extract_loop env (self\<lparr>suppress_logs := b\<rparr>) cs shp mode_arg acc
     = extract_loop env self cs shp mode_arg acc"
  by (induction cs arbitrary: acc) simp_all

lemma extract_loop_put_model [simp]:
  "extract_loop env (put_model self m x) cs shp mode_arg acc
     = extract_loop env self cs shp mode_arg acc"
  by (induction cs arbitrary: acc) simp_all

lemma run_model_events:
  assumes "run_model env self mode_arg model batch = (evs, self', r)"
  shows "prefix evs [TensorCuda, TorchLoad (checkpoint_path self), LoadStateDict (arch model),
                     ModelEval (arch model), Forward (arch model) False]
         \<and> extract_calls evs = [] \<and> model_events evs = evs \<and> no_log evs = evs"
  using assms
  by (auto simp: run_model_def Let_def prefix_def split: sum.splits if_splits)


lemma processing_log_events [simp]:
  "extract_calls (processing_log self m) = []"
  "model_events (processing_log self m) = []"
  "no_log (processing_log self m) = []"
  by (simp_all add: processing_log_def)

lemma shape_and_model_Inr:
  assumes "shape_and_model self m = Inr (shp, model)"
  shows "shp = (if m = ''3D'' then [depth_px self, size_px self, size_px self]
                else [1, size_px self, size_px self])
         \<and> (if m = ''3D'' then model_3d self else model_2d self) = Some model"
  using assms
  by (auto simp: shape_and_model_def bind_err_def get_attr_def split: if_splits option.splits)

lemma process_model_cases:
  assumes run: "process_model env self m = (evs, self', r)"
  obtains
    (no_model) e where
      "shape_and_model self m = Inl e" "evs = processing_log self m" "self' = self" "r = Inl e"
  | (no_coords) shp model where
      "shape_and_model self m = Inr (shp, model)" "coords self = None"
      "evs = processing_log self m" "self' = self" "r = Inl (AttributeError ''coords'')"
  | (loop_failed) shp model cs ev e where
      "shape_and_model self m = Inr (shp, model)" "coords self = Some cs"
      "extract_loop env self cs shp m [] = (ev, Inl e)"
      "evs = processing_log self m @ ev" "self' = self" "r = Inl e"
  | (ran) shp model cs ev nodules ev' where
      "shape_and_model self m = Inr (shp, model)" "coords self = Some cs"
      "extract_loop env self cs shp m [] = (ev, Inr nodules)"
      "run_model env self m model (np_array nodules) = (ev', self', r)"
      "evs = processing_log self m @ ev @ ev'"
proof (cases "shape_and_model self m")
  case (Inl e)
  with run have "evs = processing_log self m" "self' = self" "r = Inl e"
    by (auto simp: process_model_def)
  with Inl show ?thesis
    by (rule no_model)
next
  case (Inr sm)
  obtain shp model where sm: "shape_and_model self m = Inr (shp, model)"
    using Inr by (cases sm) simp
  show ?thesis
  proof (cases "coords self")
    case None
    with run sm have "evs = processing_log self m" "self' = self"
        "r = Inl (AttributeError ''coords'')"
      by (auto simp: process_model_def get_attr_def)
    with sm None show ?thesis
      by (rule no_coords)
  next
    case (Some cs)
    obtain ev res where loop: "extract_loop env self cs shp m [] = (ev, res)"
      by (cases "extract_loop env self cs shp m []")
    show ?thesis
    proof (cases res)
      case (Inl e)
      with run sm Some loop have "evs = processing_log self m @ ev" "self' = self" "r = Inl e"
        by (auto simp: process_model_def get_attr_def)
      with sm Some loop [unfolded Inl] show ?thesis
        by (rule loop_failed)
    next
      case nodules: (Inr nodules)
      obtain ev' s' r' where rm: "run_model env self m model (np_array nodules) = (ev', s', r')"
        by (cases "run_model env self m model (np_array nodules)")
      with run sm Some loop nodules have
        eqs: "evs = processing_log self m @ ev @ ev'" "s' = self'" "r' = r"
        by (auto simp: process_model_def get_attr_def)
      have rm': "run_model env self m model (np_array nodules) = (ev', self', r)"
        using rm eqs by simp
      from sm Some loop [unfolded nodules] rm' eqs(1) show ?thesis
        by (rule ran)
    qed
  qed
qed

section \<open>What every reachable processor satisfies\<close>

lemma init_configured:
  assumes "init mode_arg suppress name = (evs, Inr self)"
  shows "configured self"
  using assms
  by (auto simp: init_def init_fields_def configured_def new_model_def Let_def split: if_splits)

lemma define_inputs_configured:
  "configured self \<Longrightarrow> configured (define_inputs self img hdr cs)"
  by (simp add: configured_def define_inputs_def)

lemma put_model_configured:
  assumes "configured self" and "(if mode self = ''3D'' then model_3d self else model_2d self) = Some model"
  shows "configured (put_model self (mode self) (model\<lparr>weights := w, training := t\<rparr>))"
  using assms
  by (auto simp: configured_def put_model_def split: if_splits)

lemma run_model_state:
  assumes "run_model env self m model batch = (evs, self', r)"
  shows "self' = self \<or> (\<exists>ckpt. self' = put_model self m (model\<lparr>weights := Some ckpt, training := False\<rparr>))"
  using assms
  by (auto simp: run_model_def Let_def split: sum.splits if_splits)

lemma process_model_state:
  assumes "process_model env self m = (evs, self', r)"
  shows "self' = self \<or>
         (\<exists>model ckpt. (if m = ''3D'' then model_3d self else model_2d self) = Some model
            \<and> self' = put_model self m (model\<lparr>weights := Some ckpt, training := False\<rparr>))"
  using assms
proof (cases rule: process_model_cases)
  case (ran shp model cs ev nodules ev')
  from shape_and_model_Inr [OF ran(1)] run_model_state [OF ran(4)] show ?thesis
    by auto
qed simp_all

lemma predict_state:
  assumes "predict env self = (evs, self', r)"
  shows "\<exists>r'. process_model env self (mode self) = (evs, self', r')
           \<and> r = map_sum id (\<lambda>logits. (torch_sigmoid logits, logits)) r'"
  using assms
  by (auto simp: predict_def split: prod.splits sum.splits)

lemma predict_configured:
  assumes "configured self" and "predict env self = (evs, self', r)"
  shows "configured self'"
proof -
  from predict_state [OF assms(2)] obtain r' where
    "process_model env self (mode self) = (evs, self', r')"
    by auto
  from process_model_state [OF this] assms(1) put_model_configured [OF assms(1)] show ?thesis
    by auto
qed

lemma reachable_configured: "reachable env self \<Longrightarrow> configured self"
proof (induction rule: reachable.induct)
  case (constructed mode_arg suppress name evs self)
  then show ?case by (rule init_configured)
next
  case (inputs self img hdr cs)
  then show ?case by (simp add: define_inputs_configured)
next
  case (predicted self evs self' r)
  then show ?case by (simp add: predict_configured)
qed

lemma process_model_calls:
  assumes "process_model env self m = (evs, self', r)"
  shows "list_all (\<lambda>call. \<exists>c. extract_args self c
                     (if m = ''3D'' then [depth_px self, size_px self, size_px self]
                      else [1, size_px self, size_px self]) m = Inr call)
           (extract_calls evs)"
  using assms
proof (cases rule: process_model_cases)
  case (loop_failed shp model cs ev e)
  from extract_loop_calls [OF loop_failed(3)] shape_and_model_Inr [OF loop_failed(1)] loop_failed(4)
  show ?thesis by simp
next
  case (ran shp model cs ev nodules ev')
  from extract_loop_calls [OF ran(3)] shape_and_model_Inr [OF ran(1)] run_model_events [OF ran(4)] ran(5)
  show ?thesis by simp
qed simp_all

lemma predict_calls:
  assumes "predict env self = (evs, self', r)"
  shows "list_all (\<lambda>call. \<exists>c. extract_args self c
                     (if mode self = ''3D'' then [depth_px self, size_px self, size_px self]
                      else [1, size_px self, size_px self]) (mode self) = Inr call)
           (extract_calls evs)"
proof -
  from predict_state [OF assms] obtain r' where
    "process_model env self (mode self) = (evs, self', r')"
    by auto
  then show ?thesis
    by (rule process_model_calls)
qed

section \<open>Concrete runs\<close>

lemma demo_processor_reachable:
  assumes "init mode_arg True name = (evs, Inr self)"
  shows "reachable env (demo_processor mode_arg name hdr cs)"
proof -
  have "reachable env self"
    using assms by (rule reachable.constructed)
  then have "reachable env (define_inputs self demo_image hdr cs)"
    by (rule reachable.inputs)
  then show ?thesis
    using assms by (simp add: demo_processor_def)
qed

lemma init_3d_demo:
  "init ''3D'' True ''finetune-hiera'' =
     ([NewModel Hiera3D 64 (Some 16) ''finetuned'', ModelCuda Hiera3D],
      Inr ((init_fields ''3D'' True ''finetune-hiera'')
             \<lparr>model_3d := Some (new_model Hiera3D 64 (Some 16) ''finetuned''),
              model_root := ''/opt/app/resources/''\<rparr>))"
  by (simp add: init_def init_fields_def lower_demo_names Let_def)

lemma init_2d_demo:
  "init ''2D'' True ''finetune-vit'' =
     ([NewModel ViT2D 64 None ''finetuned'', ModelCuda ViT2D],
      Inr ((init_fields ''2D'' True ''finetune-vit'')
             \<lparr>model_2d := Some (new_model ViT2D 64 None ''finetuned''),
              model_root := ''/opt/app/resources/''\<rparr>))"
  by (simp add: init_def init_fields_def lower_demo_names Let_def)

lemma demo_3d_reachable: "reachable env demo_3d"
  unfolding demo_3d_def by (rule demo_processor_reachable [OF init_3d_demo])

lemma demo_2d_reachable: "reachable env demo_2d"
  unfolding demo_2d_def by (rule demo_processor_reachable [OF init_2d_demo])

lemma demo_3d_fields:
  "demo_3d = (init_fields ''3D'' True ''finetune-hiera'')
      \<lparr>model_3d := Some (new_model Hiera3D 64 (Some 16) ''finetuned''),
       model_root := ''/opt/app/resources/'',
       image_ct := Some demo_image, header := Some demo_header,
       coords := Some [[1, 2, 3], [- 1200, 5, 6]]\<rparr>"
  by (simp add: demo_3d_def demo_processor_def init_3d_demo define_inputs_def)

lemma demo_2d_fields:
  "demo_2d = (init_fields ''2D'' True ''finetune-vit'')
      \<lparr>model_2d := Some (new_model ViT2D 64 None ''finetuned''),
       model_root := ''/opt/app/resources/'',
       image_ct := Some demo_image, header := Some demo_header,
       coords := Some [[- 300, 0, 0]]\<rparr>"
  by (simp add: demo_2d_def demo_processor_def init_2d_demo define_inputs_def)

lemma demo_3d_args:
  "extract_args demo_3d c shp m = Inr (demo_call c shp m)"
  by (simp add: extract_args_def bind_err_def get_attr_def get_item_def
       py_truediv_def demo_3d_fields init_fields_def demo_header_def demo_call_def)

lemma demo_2d_args:
  "extract_args demo_2d c shp m = Inr (demo_call c shp m)"
  by (simp add: extract_args_def bind_err_def get_attr_def get_item_def
       py_truediv_def demo_2d_fields init_fields_def demo_header_def demo_call_def)

lemma shape_demo_slice: "shape (demo_slice x) = Some [3, 1, 1]"
  by (simp add: demo_slice_def)

lemma clip_demo_slice:
  "clip_and_scale (- 1000) 400 (demo_slice x) = demo_slice ((min 400 (max (- 1000) x) + 1000) / 1400)"
  by (simp add: clip_and_scale_def demo_slice_def)

lemma clip_and_scale_Array:
  "clip_and_scale lo hi (Array ts) = Array (map (clip_and_scale lo hi) ts)"
  by (simp add: clip_and_scale_def)

lemma normalize_demo_3d:
  "normalize_image [m0, m1, m2] [s0, s1, s2] (Array [demo_slice x, demo_slice y])
     = Inr (Array [Array [Array [Array [Scalar ((x - m0) / s0)]],
                          Array [Array [Scalar ((x - m1) / s1)]],
                          Array [Array [Scalar ((x - m2) / s2)]]],
                   Array [Array [Array [Scalar ((y - m0) / s0)]],
                          Array [Array [Scalar ((y - m1) / s1)]],
                          Array [Array [Scalar ((y - m2) / s2)]]]])"
  by (simp add: normalize_image_def normalize_chw_def normalize_value_def demo_slice_def items_def
        upt_rec [of 0] upt_rec [of 1] upt_rec [of 2])

lemma normalize_demo_2d:
  "normalize_image [m0, m1, m2] [s0, s1, s2] (demo_slice x)
     = Inr (Array [Array [Array [Scalar ((x - m0) / s0)]],
                   Array [Array [Scalar ((x - m1) / s1)]],
                   Array [Array [Scalar ((x - m2) / s2)]]])"
  by (simp add: normalize_image_def normalize_chw_def normalize_value_def demo_slice_def items_def
        upt_rec [of 0] upt_rec [of 1] upt_rec [of 2])

lemma permute_demo:
  "permute_1_0_2_3
     (Array [Array [Array [Array [Scalar a0]], Array [Array [Scalar a1]], Array [Array [Scalar a2]]],
             Array [Array [Array [Scalar b0]], Array [Array [Scalar b1]], Array [Array [Scalar b2]]]])
     = Inr (Array [Array [Array [Array [Scalar a0]], Array [Array [Scalar b0]]],
                   Array [Array [Array [Scalar a1]], Array [Array [Scalar b1]]],
                   Array [Array [Array [Scalar a2]], Array [Array [Scalar b2]]]])"
  by (simp add: permute_1_0_2_3_def items_def upt_rec [of 0] upt_rec [of 1] upt_rec [of 2])

lemma demo_3d_mode: "mode demo_3d = ''3D''" "suppress_logs demo_3d"
  "checkpoint_path demo_3d = ''/opt/app/resources/finetune-hiera/best_metric_model.pth''"
  by (simp_all add: demo_3d_fields init_fields_def checkpoint_path_def suffix_to_prefix)

lemma demo_2d_mode: "mode demo_2d = ''2D''" "suppress_logs demo_2d"
  "checkpoint_path demo_2d = ''/opt/app/resources/finetune-vit/best_metric_model.pth''"
  by (simp_all add: demo_2d_fields init_fields_def checkpoint_path_def suffix_to_prefix)

lemma demo_env_fields:
  "dl_extract_patch demo_env = demo_resampler" "clip_lo demo_env = - 1000" "clip_hi demo_env = 400"
  "accepts demo_env v ckpt"
  "forward demo_env m g batch = Inr (Array (map (\<lambda>t. Array [Scalar (leftmost t)]) (items batch)))"
  by (simp_all add: demo_env_def)

lemma demo_3d_extract:
  "extract_patch demo_env demo_3d [1, 2, 3] shp ''3D'' =
     ([DlExtractPatch (demo_call [1, 2, 3] shp ''3D'')],
      Inr (Array [Array [Array [Array [Scalar (53 / 45)]], Array [Array [Scalar (22 / 9)]]],
                  Array [Array [Array [Scalar (53 / 45)]], Array [Array [Scalar (22 / 9)]]],
                  Array [Array [Array [Scalar (53 / 45)]], Array [Array [Scalar (22 / 9)]]]]))"
  "extract_patch demo_env demo_3d [- 1200, 5, 6] shp ''3D'' =
     ([DlExtractPatch (demo_call [- 1200, 5, 6] shp ''3D'')],
      Inr (Array [Array [Array [Array [Scalar (- 2)]], Array [Array [Scalar (- (26 / 63))]]],
                  Array [Array [Array [Scalar (- 2)]], Array [Array [Scalar (- (26 / 63))]]],
                  Array [Array [Array [Scalar (- 2)]], Array [Array [Scalar (- (26 / 63))]]]]))"
  by (simp_all add: extract_patch_def demo_3d_args demo_env_fields demo_resampler_def demo_call_def
        astype_float32_def normalize_transform_def demo_3d_mode
        clip_and_scale_Array clip_demo_slice normalize_demo_3d permute_demo Let_def)

lemma demo_2d_extract:
  "extract_patch demo_env demo_2d [- 300, 0, 0] shp ''2D'' =
     ([DlExtractPatch (demo_call [- 300, 0, 0] shp ''2D'')],
      Inr (Array [Array [Array [Scalar (15 / 229)]],
                  Array [Array [Scalar (11 / 56)]],
                  Array [Array [Scalar (94 / 225)]]]))"
  by (simp add: extract_patch_def demo_2d_args demo_env_fields demo_resampler_def demo_call_def
        astype_float32_def normalize_transform_def demo_2d_mode
        clip_demo_slice normalize_demo_2d Let_def)

lemma demo_3d_attrs:
  "model_3d demo_3d = Some (new_model Hiera3D 64 (Some 16) ''finetuned'')"
  "coords demo_3d = Some [[1, 2, 3], [- 1200, 5, 6]]"
  "size_px demo_3d = 64" "depth_px demo_3d = 16"
  by (simp_all add: demo_3d_fields init_fields_def)

lemma demo_2d_attrs:
  "model_2d demo_2d = Some (new_model ViT2D 64 None ''finetuned'')"
  "coords demo_2d = Some [[- 300, 0, 0]]"
  "size_px demo_2d = 64" "depth_px demo_2d = 16"
  by (simp_all add: demo_2d_fields init_fields_def)

lemma demo_torch_load:
  "torch_load demo_env ''/opt/app/resources/finetune-hiera/best_metric_model.pth''
     = Inr [(''head.bias'', Array [Scalar 0])]"
  "torch_load demo_env ''/opt/app/resources/finetune-vit/best_metric_model.pth''
     = Inr [(''head.bias'', Array [Scalar 0])]"
  by (simp_all add: demo_env_def suffix_to_prefix)

lemma demo_3d_run:
  "fst (predict demo_env demo_3d) =
     [DlExtractPatch (demo_call [1, 2, 3] [16, 64, 64] ''3D''),
      DlExtractPatch (demo_call [- 1200, 5, 6] [16, 64, 64] ''3D''),
      TensorCuda, TorchLoad ''/opt/app/resources/finetune-hiera/best_metric_model.pth'',
      LoadStateDict Hiera3D, ModelEval Hiera3D, Forward Hiera3D False]"
  "snd (snd (predict demo_env demo_3d)) =
     Inr (Array [Array [Scalar (sigmoid (53 / 45))], Array [Scalar (sigmoid (- 2))]],
          Array [Array [Scalar (53 / 45)], Array [Scalar (- 2)]])"
  by (simp_all add: predict_def process_model_def shape_and_model_def bind_err_def get_attr_def
        processing_log_def demo_3d_mode demo_3d_attrs demo_3d_extract run_model_def Let_def
        demo_torch_load demo_env_fields np_array_def items_def new_model_def torch_sigmoid_def)

lemma demo_2d_run:
  "fst (predict demo_env demo_2d) =
     [DlExtractPatch (demo_call [- 300, 0, 0] [1, 64, 64] ''2D''),
      TensorCuda, TorchLoad ''/opt/app/resources/finetune-vit/best_metric_model.pth'',
      LoadStateDict ViT2D, ModelEval ViT2D, Forward ViT2D False]"
  "snd (snd (predict demo_env demo_2d)) =
     Inr (Array [Array [Scalar (sigmoid (15 / 229))]], Array [Array [Scalar (15 / 229)]])"
  by (simp_all add: predict_def process_model_def shape_and_model_def bind_err_def get_attr_def
        processing_log_def demo_2d_mode demo_2d_attrs demo_2d_extract run_model_def Let_def
        demo_torch_load demo_env_fields np_array_def items_def new_model_def torch_sigmoid_def)

section \<open>The resampler calls of a request\<close>

lemma predict_triple:
  "predict env self = (fst (predict env self), fst (snd (predict env self)), snd (snd (predict env self)))"
  by simp

text \<open>
  Claim C5. For every processor the constructor can have returned, before or after
  any number of requests, the three constants are \<open>size_px = 64\<close>, \<open>size_mm = 50\<close>
  and \<open>depth_px = 16\<close>, the mode is \<open>3D\<close> or \<open>2D\<close>, and every call of the resampler
  that \<open>predict\<close> makes asks for the output shape \<open>[16, 64, 64]\<close> in mode \<open>3D\<close> and
  \<open>[1, 64, 64]\<close> in mode \<open>2D\<close>; the constants are the same after the request.
\<close>

theorem requested_patch_shape:
  assumes "reachable env self" and "predict env self = (evs, self', r)"
  shows "size_px self = 64 \<and> size_mm self = 50 \<and> depth_px self = 16
         \<and> size_px self' = 64 \<and> size_mm self' = 50 \<and> depth_px self' = 16
         \<and> (mode self = ''3D'' \<or> mode self = ''2D'')
         \<and> list_all (\<lambda>call. output_shape call =
                               (if mode self = ''3D'' then [16, 64, 64] else [1, 64, 64])
                             \<and> call_mode call = mode self)
              (extract_calls evs)"
proof -
  have c: "configured self"
    using assms(1) by (rule reachable_configured)
  have c': "configured self'"
    using assms c by (simp add: predict_configured)
  have "list_all (\<lambda>call. output_shape call =
                               (if mode self = ''3D'' then [16, 64, 64] else [1, 64, 64])
                             \<and> call_mode call = mode self)
              (extract_calls evs)"
    using predict_calls [OF assms(2)] c
    by (auto simp: list_all_iff configured_def dest!: extract_args_Inr)
  with c c' show ?thesis
    by (auto simp: configured_def)
qed

theorem requested_patch_shape_witness:
  "reachable demo_env demo_3d \<and> reachable demo_env demo_2d
   \<and> size_px demo_3d = 64 \<and> size_mm demo_3d = 50 \<and> depth_px demo_3d = 16
   \<and> mode demo_3d = ''3D'' \<and> mode demo_2d = ''2D''
   \<and> length (extract_calls (fst (predict demo_env demo_3d))) = 2
   \<and> list_all (\<lambda>call. output_shape call = [16, 64, 64] \<and> call_mode call = ''3D'')
        (extract_calls (fst (predict demo_env demo_3d)))
   \<and> length (extract_calls (fst (predict demo_env demo_2d))) = 1
   \<and> list_all (\<lambda>call. output_shape call = [1, 64, 64] \<and> call_mode call = ''2D'')
        (extract_calls (fst (predict demo_env demo_2d)))"
  using requested_patch_shape [OF demo_3d_reachable predict_triple, of demo_env]
        requested_patch_shape [OF demo_2d_reachable predict_triple, of demo_env]
        demo_3d_reachable [of demo_env] demo_2d_reachable [of demo_env]
  by (simp add: demo_3d_mode demo_2d_mode demo_3d_run demo_2d_run)

text \<open>
  Claim C8. For every processor the constructor can have returned, every call of
  the resampler, whether made by \<open>extract_patch\<close> with any coordinate, output shape
  and mode argument or in the course of \<open>predict\<close>, passes the target voxel spacing
  \<open>(50 / 64, 50 / 64, 50 / 64)\<close>: the same on the three axes, the same in both
  modes, and independent of the inputs of the request.
\<close>

theorem voxel_pitch_fixed:
  assumes "reachable env self"
  shows "list_all (\<lambda>call. voxel_spacing call = (50 / 64, 50 / 64, 50 / 64))
           (extract_calls (fst (extract_patch env self c shp mode_arg)))
         \<and> list_all (\<lambda>call. voxel_spacing call = (50 / 64, 50 / 64, 50 / 64))
           (extract_calls (fst (predict env self)))"
proof -
  have c: "configured self"
    using assms(1) by (rule reachable_configured)
  have one: "list_all (\<lambda>call. voxel_spacing call = (50 / 64, 50 / 64, 50 / 64))
           (extract_calls (fst (extract_patch env self c shp mode_arg)))"
    using c
    by (auto simp: extract_patch_events configured_def split: sum.splits dest!: extract_args_Inr)
  obtain evs self' r where run: "predict env self = (evs, self', r)"
    by (cases "predict env self")
  have "list_all (\<lambda>call. voxel_spacing call = (50 / 64, 50 / 64, 50 / 64)) (extract_calls evs)"
    using predict_calls [OF run] c
    by (auto simp: list_all_iff configured_def dest!: extract_args_Inr)
  with one run show ?thesis
    by simp
qed

theorem voxel_pitch_fixed_witness:
  "reachable demo_env demo_3d \<and> reachable demo_env demo_2d
   \<and> map voxel_spacing (extract_calls (fst (predict demo_env demo_3d)))
       = [(50 / 64, 50 / 64, 50 / 64), (50 / 64, 50 / 64, 50 / 64)]
   \<and> map voxel_spacing (extract_calls (fst (predict demo_env demo_2d)))
       = [(50 / 64, 50 / 64, 50 / 64)]
   \<and> list_all (\<lambda>call. voxel_spacing call = (50 / 64, 50 / 64, 50 / 64))
        (extract_calls (fst (predict demo_env demo_3d)))
   \<and> list_all (\<lambda>call. voxel_spacing call = (50 / 64, 50 / 64, 50 / 64))
        (extract_calls (fst (predict demo_env demo_2d)))
   \<and> list_all (\<lambda>call. voxel_spacing call = (50 / 64, 50 / 64, 50 / 64))
        (extract_calls (fst (extract_patch demo_env demo_2d [7, 8, 9] [4, 4, 4] ''3D'')))"
  using voxel_pitch_fixed [OF demo_3d_reachable, of demo_env "[7, 8, 9]" "[4, 4, 4]" "''3D''"]
        voxel_pitch_fixed [OF demo_2d_reachable, of demo_env "[7, 8, 9]" "[4, 4, 4]" "''3D''"]
        demo_3d_reachable [of demo_env] demo_2d_reachable [of demo_env]
  by (simp add: demo_3d_run demo_2d_run demo_call_def)

section \<open>Diagnostic output\<close>

lemma shape_and_model_suppress [simp]:
  "shape_and_model (self\<lparr>suppress_logs := b\<rparr>) m = shape_and_model self m"
  by (simp add: shape_and_model_def)

lemma checkpoint_path_suppress [simp]:
  "checkpoint_path (self\<lparr>suppress_logs := b\<rparr>) = checkpoint_path self"
  by (simp add: checkpoint_path_def)

lemma put_model_suppress:
  "put_model (self\<lparr>suppress_logs := b\<rparr>) m x = (put_model self m x)\<lparr>suppress_logs := b\<rparr>"
  by (simp add: put_model_def)

lemma run_model_suppress:
  "run_model env (self\<lparr>suppress_logs := b\<rparr>) m model batch =
     (case run_model env self m model batch of
        (ev, self', r) \<Rightarrow> (ev, self'\<lparr>suppress_logs := b\<rparr>, r))"
  by (simp add: run_model_def Let_def put_model_suppress split: sum.splits)

lemma process_model_suppress:
  assumes "process_model env self m = (evs, self', r)"
  shows "process_model env (self\<lparr>suppress_logs := b\<rparr>) m =
           (processing_log (self\<lparr>suppress_logs := b\<rparr>) m @ no_log evs,
            self'\<lparr>suppress_logs := b\<rparr>, r)"
  using assms
proof (cases rule: process_model_cases)
  case (no_model e)
  then show ?thesis
    by (simp add: process_model_def)
next
  case (no_coords shp model)
  then show ?thesis
    by (simp add: process_model_def get_attr_def)
next
  case (loop_failed shp model cs ev e)
  with extract_loop_calls [OF loop_failed(3)] show ?thesis
    by (simp add: process_model_def get_attr_def)
next
  case (ran shp model cs ev nodules ev')
  with extract_loop_calls [OF ran(3)] run_model_events [OF ran(4)]
  show ?thesis
    by (simp add: process_model_def get_attr_def run_model_suppress)
qed

lemma predict_suppress:
  assumes "predict env self = (evs, self', r)"
  shows "predict env (self\<lparr>suppress_logs := b\<rparr>) =
           (processing_log (self\<lparr>suppress_logs := b\<rparr>) (mode self) @ no_log evs,
            self'\<lparr>suppress_logs := b\<rparr>, r)"
proof -
  from predict_state [OF assms] obtain r' where
    pm: "process_model env self (mode self) = (evs, self', r')" and
    r: "r = map_sum id (\<lambda>logits. (torch_sigmoid logits, logits)) r'"
    by auto
  from process_model_suppress [OF pm, of b] r show ?thesis
    by (cases r') (simp_all add: predict_def)
qed

text \<open>
  Claim C9. Take any processor and any value of the \<open>suppress_logs\<close> flag. With
  the flag set to that value, \<open>predict\<close> returns the same result (the same
  probabilities and logits, or the same exception), makes the same calls in the
  same order apart from the \<open>logging.info\<close> lines, and leaves the same processor
  apart from the flag. The constructor likewise returns the same processor apart
  from the flag, or raises the same exception, and performs the same events apart
  from its log line, whatever the flag.
\<close>

theorem suppress_logs_no_effect:
  "snd (snd (predict env (self\<lparr>suppress_logs := b\<rparr>))) = snd (snd (predict env self))
   \<and> no_log (fst (predict env (self\<lparr>suppress_logs := b\<rparr>))) = no_log (fst (predict env self))
   \<and> fst (snd (predict env (self\<lparr>suppress_logs := b\<rparr>)))
       = (fst (snd (predict env self)))\<lparr>suppress_logs := b\<rparr>
   \<and> no_log (fst (init mode_arg b name)) = no_log (fst (init mode_arg b' name))
   \<and> snd (init mode_arg b name)
       = map_sum id (\<lambda>p. p\<lparr>suppress_logs := b\<rparr>) (snd (init mode_arg b' name))"
proof -
  have nn: "no_log (no_log evs) = no_log evs" for evs
    by (simp add: no_log_def)
  have p: "predict env (self\<lparr>suppress_logs := b\<rparr>) =
             (processing_log (self\<lparr>suppress_logs := b\<rparr>) (mode self)
                @ no_log (fst (predict env self)),
              (fst (snd (predict env self)))\<lparr>suppress_logs := b\<rparr>,
              snd (snd (predict env self)))"
    by (rule predict_suppress) simp
  have i: "no_log (fst (init mode_arg b name)) = no_log (fst (init mode_arg b' name))
           \<and> snd (init mode_arg b name)
               = map_sum id (\<lambda>p. p\<lparr>suppress_logs := b\<rparr>) (snd (init mode_arg b' name))"
    by (simp add: init_def init_fields_def Let_def)
  from p i show ?thesis
    by (simp add: nn)
qed

section \<open>Checkpoint loading and the forward pass\<close>



lemma configured_selected:
  assumes "configured self"
  shows "\<exists>model. (if mode self = ''3D'' then model_3d self else model_2d self) = Some model
           \<and> selected self = [arch model]"
  using assms
  by (auto simp: configured_def selected_def split: if_splits)




lemma put_model_fields [simp]:
  "coords (put_model self m x) = coords self"
  "suppress_logs (put_model self m x) = suppress_logs self"
  "size_px (put_model self m x) = size_px self"
  "depth_px (put_model self m x) = depth_px self"
  "model_root (put_model self m x) = model_root self"
  "model_name (put_model self m x) = model_name self"
  "(if m = ''3D'' then model_3d (put_model self m x) else model_2d (put_model self m x)) = Some x"
  "put_model (put_model self m x) m y = put_model self m y"
  by (simp_all add: put_model_def)

















section \<open>Arrays\<close>




section \<open>Probabilities\<close>



section \<open>Candidates, patches and results\<close>

lemma init_hiera_demo_reachable:
  "reachable env (demo_processor ''3D'' ''finetune-hiera'' hdr cs)"
  by (rule demo_processor_reachable [OF init_3d_demo])

lemma demo_hiera_fields:
  "demo_processor ''3D'' ''finetune-hiera'' hdr cs = (init_fields ''3D'' True ''finetune-hiera'')
      \<lparr>model_3d := Some (new_model Hiera3D 64 (Some 16) ''finetuned''),
       model_root := ''/opt/app/resources/'',
       image_ct := Some demo_image, header := Some hdr, coords := Some cs\<rparr>"
  by (simp add: demo_processor_def init_3d_demo define_inputs_def)

lemma demo_hiera_attrs:
  "mode (demo_processor ''3D'' ''finetune-hiera'' hdr cs) = ''3D''"
  "suppress_logs (demo_processor ''3D'' ''finetune-hiera'' hdr cs)"
  "checkpoint_path (demo_processor ''3D'' ''finetune-hiera'' hdr cs)
     = ''/opt/app/resources/finetune-hiera/best_metric_model.pth''"
  "model_3d (demo_processor ''3D'' ''finetune-hiera'' hdr cs)
     = Some (new_model Hiera3D 64 (Some 16) ''finetuned'')"
  "coords (demo_processor ''3D'' ''finetune-hiera'' hdr cs) = Some cs"
  "header (demo_processor ''3D'' ''finetune-hiera'' hdr cs) = Some hdr"
  "image_ct (demo_processor ''3D'' ''finetune-hiera'' hdr cs) = Some demo_image"
  "size_px (demo_processor ''3D'' ''finetune-hiera'' hdr cs) = 64"
  "depth_px (demo_processor ''3D'' ''finetune-hiera'' hdr cs) = 16"
  by (simp_all add: demo_hiera_fields init_fields_def checkpoint_path_def suffix_to_prefix)

lemma demo_no_candidates_run:
  "predict demo_env (demo_processor ''3D'' ''finetune-hiera'' hdr []) =
     ([TensorCuda, TorchLoad ''/opt/app/resources/finetune-hiera/best_metric_model.pth'',
       LoadStateDict Hiera3D, ModelEval Hiera3D, Forward Hiera3D False],
      put_model (demo_processor ''3D'' ''finetune-hiera'' hdr []) ''3D''
        ((new_model Hiera3D 64 (Some 16) ''finetuned'')
           \<lparr>weights := Some [(''head.bias'', Array [Scalar 0])], training := False\<rparr>),
      Inr (Array [], Array []))"
  by (simp add: predict_def process_model_def shape_and_model_def bind_err_def get_attr_def
        processing_log_def demo_hiera_attrs run_model_def Let_def
        demo_torch_load demo_env_fields np_array_def items_def new_model_def torch_sigmoid_def)





section \<open>An incomplete header\<close>

lemma extract_args_missing:
  assumes "image_ct self = Some img" and "header self = Some hdr"
      and "hdr ''origin'' = None \<or> hdr ''transform'' = None \<or> hdr ''spacing'' = None"
  shows "extract_args self c shp m =
           Inl (KeyError (if hdr ''origin'' = None then ''origin''
                          else if hdr ''transform'' = None then ''transform'' else ''spacing''))"
  using assms
  by (auto simp: extract_args_def bind_err_def get_attr_def get_item_def split: option.splits)

lemma extract_patch_Inl_args:
  "extract_args self c shp m = Inl e \<Longrightarrow> extract_patch env self c shp m = ([], Inl e)"
  by (simp add: extract_patch_def)

text \<open>
  Claim C6, as stated, has every request with an incomplete header fail, the
  header being checked once, before any work. The code never checks the header:
  it reads the three fields when it prepares the resampler call of a candidate.
  With no candidates the header is not read at all: a request whose header is
  empty goes on to load the checkpoint and to run the network, and returns what
  the network returns for the empty batch.
\<close>

theorem incomplete_header_counterexample:
  "header (demo_no_header []) = Some Map.empty
   \<and> coords (demo_no_header []) = Some []
   \<and> fst (predict demo_env (demo_no_header [])) =
        [TensorCuda, TorchLoad ''/opt/app/resources/finetune-hiera/best_metric_model.pth'',
         LoadStateDict Hiera3D, ModelEval Hiera3D, Forward Hiera3D False]
   \<and> snd (snd (predict demo_env (demo_no_header []))) = Inr (Array [], Array [])"
  by (simp add: demo_no_header_def demo_no_candidates_run demo_hiera_attrs)

text \<open>
  Claim C6, amended. Take a processor that the constructor can have returned, whose
  header lacks \<open>origin\<close>, \<open>transform\<close> or \<open>spacing\<close> and whose candidate sequence
  is not empty. Then \<open>predict\<close> raises \<open>KeyError\<close> for the first field that is
  missing, in the order \<open>origin\<close>, \<open>transform\<close>, \<open>spacing\<close>. It does so while it
  prepares the resampler call of the first candidate: the resampler is not called,
  the checkpoint is not read, the network is not run, and the processor is left as
  it was; the only event before the exception is the log line of
  \<open>_process_model\<close>, when logs are not suppressed.
\<close>

theorem incomplete_header_fails_at_first_candidate:
  assumes "reachable env self"
      and "header self = Some hdr"
      and "coords self = Some (c # cs)"
      and "hdr ''origin'' = None \<or> hdr ''transform'' = None \<or> hdr ''spacing'' = None"
  shows "predict env self =
           (processing_log self (mode self), self,
            Inl (KeyError (if hdr ''origin'' = None then ''origin''
                           else if hdr ''transform'' = None then ''transform'' else ''spacing'')))
         \<and> extract_calls (fst (predict env self)) = []
         \<and> model_events (fst (predict env self)) = []
         \<and> no_log (fst (predict env self)) = []"
proof -
  have cf: "configured self"
    using assms(1) by (rule reachable_configured)
  from cf assms(2) obtain img where img: "image_ct self = Some img"
    by (auto simp: configured_def)
  from configured_selected [OF cf] obtain model where
    model: "(if mode self = ''3D'' then model_3d self else model_2d self) = Some model"
    by blast
  define shp where "shp = (if mode self = ''3D'' then [depth_px self, size_px self, size_px self]
                           else [1, size_px self, size_px self])"
  define e where "e = KeyError (if hdr ''origin'' = None then ''origin''
                           else if hdr ''transform'' = None then ''transform'' else ''spacing'')"
  have sm: "shape_and_model self (mode self) = Inr (shp, model)"
    using model by (auto simp: shape_and_model_def bind_err_def get_attr_def shp_def split: if_splits)
  have "extract_args self c shp (mode self) = Inl e"
    unfolding e_def by (rule extract_args_missing [OF img assms(2,4)])
  then have "extract_patch env self c shp (mode self) = ([], Inl e)"
    by (rule extract_patch_Inl_args)
  then have loop: "extract_loop env self (c # cs) shp (mode self) [] = ([], Inl e)"
    by simp
  have pm: "process_model env self (mode self) = (processing_log self (mode self), self, Inl e)"
    using sm assms(3) loop by (simp add: process_model_def get_attr_def)
  then have "predict env self = (processing_log self (mode self), self, Inl e)"
    by (simp add: predict_def)
  then show ?thesis
    by (simp add: e_def)
qed

theorem incomplete_header_fails_at_first_candidate_witness:
  "reachable demo_env (demo_no_header [[1, 2, 3]])
   \<and> header (demo_no_header [[1, 2, 3]]) = Some Map.empty
   \<and> coords (demo_no_header [[1, 2, 3]]) = Some [[1, 2, 3]]
   \<and> predict demo_env (demo_no_header [[1, 2, 3]]) =
        ([], demo_no_header [[1, 2, 3]], Inl (KeyError ''origin''))"
proof -
  have r: "reachable demo_env (demo_no_header [[1, 2, 3]])"
    unfolding demo_no_header_def by (rule init_hiera_demo_reachable)
  have h: "header (demo_no_header [[1, 2, 3]]) = Some Map.empty"
    by (simp add: demo_no_header_def demo_hiera_attrs)
  have c: "coords (demo_no_header [[1, 2, 3]]) = Some [[1, 2, 3]]"
    by (simp add: demo_no_header_def demo_hiera_attrs)
  have m: "Map.empty ''origin'' = (None :: tensor option) \<or> Map.empty ''transform'' = (None :: tensor option)
           \<or> Map.empty ''spacing'' = (None :: tensor option)"
    by simp
  have s: "processing_log (demo_no_header [[1, 2, 3]]) (mode (demo_no_header [[1, 2, 3]])) = []"
    by (simp add: processing_log_def demo_no_header_def demo_hiera_attrs)
  from incomplete_header_fails_at_first_candidate [OF r h c m] s r h c show ?thesis
    by simp
qed

section \<open>Shapes and indices of the array operations\<close>

















lemma permute_1_0_2_3_Inr:
  assumes "permute_1_0_2_3 t = Inr out"
  shows "\<exists>d0 d1 d2 d3. shape t = Some [d0, d1, d2, d3]"
  using assms
  by (auto simp: permute_1_0_2_3_def split: option.splits list.splits)



section \<open>The normalization of a patch\<close>











end
